theory Spec2Isabelle
  imports Main "HOL-Library.Multiset"
begin

section \<open>Python strings\<close>

text \<open>
  A Python \<^verbatim>\<open>str\<close> is modelled as a \<^typ>\<open>string\<close>; a \<^typ>\<open>char\<close> stands for a
  code point below 256. \<^verbatim>\<open>str.split()\<close> without an argument splits at runs of
  whitespace and drops empty pieces; the whitespace code points below 256 are
  9..13, 28..32, 133 and 160.
\<close>

definition is_space :: "char \<Rightarrow> bool" where
  "is_space c =
     (let n = (of_char c :: nat)
      in (9 \<le> n \<and> n \<le> 13) \<or> (28 \<le> n \<and> n \<le> 32) \<or> n = 133 \<or> n = 160)"

text \<open>\<open>tokens cur s\<close>: the scan of \<^verbatim>\<open>str.split()\<close>, \<open>cur\<close> the token being read.\<close>

fun tokens :: "string \<Rightarrow> string \<Rightarrow> string list" where
  "tokens cur [] = (if cur = [] then [] else [cur])"
| "tokens cur (c # s) =
     (if is_space c then (if cur = [] then tokens [] s else cur # tokens [] s)
      else tokens (cur @ [c]) s)"

definition py_split :: "string \<Rightarrow> string list" where
  "py_split s = tokens [] s"

text \<open>\<^verbatim>\<open>" ".join(xs)\<close>\<close>

fun py_join :: "string list \<Rightarrow> string" where
  "py_join [] = []"
| "py_join [x] = x"
| "py_join (x # y # ys) = x @ '' '' @ py_join (y # ys)"

text \<open>\<^verbatim>\<open>s.split("_")[0]\<close>: the part of \<open>s\<close> before its first underscore.\<close>

definition split_underscore_head :: "string \<Rightarrow> string" where
  "split_underscore_head s = takeWhile (\<lambda>c. c \<noteq> CHR ''_'') s"

text \<open>
  \<^verbatim>\<open>.str.split().str[-1]\<close> on one value: the last token, and NaN (here \<open>None\<close>)
  when the value has no token.
\<close>

definition last_token :: "string \<Rightarrow> string option" where
  "last_token s = (let ts = py_split s in if ts = [] then None else Some (last ts))"

section \<open>Tables\<close>

text \<open>
  A lookup table is a \<^verbatim>\<open>pd.Series\<close> of strings with a string index and a name:
  \<open>rows\<close> pairs every index label with its value, in the order of the Series.
\<close>

record table =
  name :: string
  rows :: "(string \<times> string) list"

datatype error =
    TypeError
  | ValueError
  | KeyError
  | IndexError
  | AssertionError int int

subsection \<open>\<^verbatim>\<open>compose_table_lookups\<close>\<close>

text \<open>
  \<^verbatim>\<open>pd.merge(left, right, left_index=True, right_on='next_input')\<close> is an inner
  join of the index of \<open>left\<close> with the column \<open>next_input\<close> of \<open>right\<close>. It keeps
  the order of the left keys, and for each of them the matching rows of \<open>right\<close> in
  their order; the index of the result is the index of \<open>right\<close>. A row of the result
  is (index label, left value, right value).
\<close>

definition merge_rows ::
  "(string \<times> string) list \<Rightarrow> (string \<times> string) list \<Rightarrow> (string \<times> string \<times> string) list" where
  "merge_rows left right =
     concat (map (\<lambda>(k, lv).
        map (\<lambda>(i, rv). (i, lv, rv))
            (filter (\<lambda>(i, rv). last_token rv = Some k) right)) left)"

text \<open>
  The two value columns of the merged frame are named after the two tables; pandas
  appends the suffixes \<open>_x\<close> and \<open>_y\<close> when the names are equal. A table named
  \<open>next_input\<close> collides with the helper column: as the left table the final
  \<^verbatim>\<open>drop("next_input", axis=1)\<close> raises KeyError, as the right table its only
  column is overwritten and unpacking the two column names raises ValueError.
\<close>

definition compose_table_lookups :: "table \<Rightarrow> table \<Rightarrow> bool \<Rightarrow> error + table" where
  "compose_table_lookups table1 table2 is_intermediate =
     (if name table1 = ''next_input'' then Inl KeyError
      else if name table2 = ''next_input'' then Inl ValueError
      else
        let merged_df = merge_rows (rows table1) (rows table2);
            left_col = (if name table1 = name table2 then name table1 @ ''_x'' else name table1);
            right_col = (if name table1 = name table2 then name table2 @ ''_y'' else name table2);
            merged_serie =
              (if is_intermediate
               then map (\<lambda>(i, lv, rv). (i, rv @ '' '' @ lv)) merged_df
               else map (\<lambda>(i, lv, rv). (i, lv)) merged_df)
        in Inr \<lparr>name = py_join [split_underscore_head left_col, split_underscore_head right_col],
                rows = merged_serie\<rparr>)"

subsection \<open>\<^verbatim>\<open>format_input\<close>\<close>

text \<open>
  \<^verbatim>\<open>format_input\<close> assigns to \<^verbatim>\<open>table.index\<close> up to three times and returns the
  same object: the function below gives the table as it is stored after the call.
\<close>

definition format_input :: "table \<Rightarrow> bool \<Rightarrow> string option \<Rightarrow> table" where
  "format_input table is_reverse eos =
     (let index1 = map (\<lambda>(i, v). (name table @ '' '' @ i, v)) (rows table);
          index2 = (if is_reverse
                    then map (\<lambda>(i, v). (py_join (rev (py_split i)), v)) index1
                    else index1);
          index3 = (case eos of
                      None \<Rightarrow> index2
                    | Some e \<Rightarrow> if e \<noteq> [] then map (\<lambda>(i, v). (i @ '' '' @ e, v)) index2
                               else index2)
      in table\<lparr>rows := index3\<rparr>)"

section \<open>Python lists, errors and random draws\<close>

text \<open>Exceptions abort the run: a computation is chained only on a normal result.\<close>

definition and_then :: "error + 'a \<Rightarrow> ('a \<Rightarrow> error + 'b) \<Rightarrow> error + 'b" where
  "and_then m f = (case m of Inl e \<Rightarrow> Inl e | Inr x \<Rightarrow> f x)"

text \<open>A list comprehension whose body may raise: the first exception wins.\<close>

fun map_result :: "('a \<Rightarrow> error + 'b) \<Rightarrow> 'a list \<Rightarrow> error + 'b list" where
  "map_result f [] = Inr []"
| "map_result f (x # xs) =
     (case f x of
        Inl e \<Rightarrow> Inl e
      | Inr y \<Rightarrow> (case map_result f xs of Inl e \<Rightarrow> Inl e | Inr ys \<Rightarrow> Inr (y # ys)))"

text \<open>
  A slice bound \<open>k\<close> of a list of length \<open>len\<close>, as Python normalises it: a negative
  bound counts from the end, and the result is clipped to \<open>0..len\<close>. Then
  \<^verbatim>\<open>xs[k:]\<close> and \<^verbatim>\<open>xs[:k]\<close>.
\<close>

definition slice_bound :: "nat \<Rightarrow> int \<Rightarrow> nat" where
  "slice_bound len k =
     (if k < 0 then nat (max (k + int len) 0) else nat (min k (int len)))"

definition slice_from :: "'a list \<Rightarrow> int \<Rightarrow> 'a list" where
  "slice_from xs k = drop (slice_bound (length xs) k) xs"

definition slice_to :: "'a list \<Rightarrow> int \<Rightarrow> 'a list" where
  "slice_to xs k = take (slice_bound (length xs) k) xs"

text \<open>\<^verbatim>\<open>range(a, b)\<close> for \<open>0 \<le> a\<close>.\<close>

definition py_range :: "nat \<Rightarrow> int \<Rightarrow> nat list" where
  "py_range a b = [a ..< nat b]"

text \<open>\<^verbatim>\<open>itertools.product(xs, repeat=n)\<close> and \<^verbatim>\<open>itertools.product(xs, ys)\<close>: the
  last position varies fastest.\<close>

fun product_repeat :: "'a list \<Rightarrow> nat \<Rightarrow> 'a list list" where
  "product_repeat xs 0 = [[]]"
| "product_repeat xs (Suc n) = concat (map (\<lambda>x. map (\<lambda>p. x # p) (product_repeat xs n)) xs)"

definition product_pairs :: "'a list \<Rightarrow> 'b list \<Rightarrow> ('a \<times> 'b) list" where
  "product_pairs xs ys = concat (map (\<lambda>x. map (\<lambda>y. (x, y)) ys) xs)"

text \<open>\<^verbatim>\<open>itertools.permutations(xs)\<close>: lexicographic in the positions of \<open>xs\<close>.\<close>

definition remove_nth :: "nat \<Rightarrow> 'a list \<Rightarrow> 'a list" where
  "remove_nth i xs = take i xs @ drop (Suc i) xs"

fun permutations_upto :: "nat \<Rightarrow> 'a list \<Rightarrow> 'a list list" where
  "permutations_upto 0 xs = [[]]"
| "permutations_upto (Suc n) xs =
     concat (map (\<lambda>i. map (\<lambda>p. xs ! i # p) (permutations_upto n (remove_nth i xs)))
                 [0 ..< length xs])"

definition permutations :: "'a list \<Rightarrow> 'a list list" where
  "permutations xs = permutations_upto (length xs) xs"

text \<open>
  The random number generators are not modelled. A draw without replacement takes the
  numbers \<open>ks\<close> it gets from its generator as an argument: \<open>draw ks xs n\<close> takes \<open>n\<close>
  elements of \<open>xs\<close> one after the other, each time the element at position
  \<open>k mod length xs\<close> of what is left. Every arrangement of \<open>xs\<close> is the result for some
  \<open>ks\<close>, so a theorem for all \<open>ks\<close> holds for every outcome of the generator.
\<close>

fun draw :: "nat list \<Rightarrow> 'a list \<Rightarrow> nat \<Rightarrow> 'a list" where
  "draw ks xs 0 = []"
| "draw ks xs (Suc n) =
     (if xs = [] then []
      else let j = (case ks of [] \<Rightarrow> 0 | k # _ \<Rightarrow> k mod length xs)
           in xs ! j # draw (tl ks) (remove_nth j xs) n)"

text \<open>\<^verbatim>\<open>random.shuffle(xs)\<close> and \<^verbatim>\<open>df.sample(frac=1)\<close>: all elements, rearranged.\<close>

definition shuffle :: "nat list \<Rightarrow> 'a list \<Rightarrow> 'a list" where
  "shuffle ks xs = draw ks xs (length xs)"

text \<open>
  \<^verbatim>\<open>np.random.choice(a, size, replace=False)\<close> and \<^verbatim>\<open>random.sample(a, size)\<close>:
  ValueError when \<open>size\<close> is negative or larger than the population.
\<close>

definition choice :: "nat list \<Rightarrow> 'a list \<Rightarrow> int \<Rightarrow> error + 'a list" where
  "choice ks a n =
     (if n < 0 \<or> int (length a) < n then Inl ValueError
      else Inr (draw ks a (nat n)))"

section \<open>Example tables\<close>

text \<open>Three unary tables over the inputs of two binary digits.\<close>

definition example_t1 :: table where
  "example_t1 = \<lparr>name = ''t1'',
     rows = [(''00'', ''01''), (''01'', ''10''), (''10'', ''11''), (''11'', ''00'')]\<rparr>"

definition example_t2 :: table where
  "example_t2 = \<lparr>name = ''t2'',
     rows = [(''00'', ''10''), (''01'', ''00''), (''10'', ''01''), (''11'', ''11'')]\<rparr>"

definition example_t3 :: table where
  "example_t3 = \<lparr>name = ''t3'',
     rows = [(''00'', ''11''), (''01'', ''01''), (''10'', ''00''), (''11'', ''10'')]\<rparr>"

text \<open>The composition of \<open>t1\<close> with \<open>t2\<close> that keeps the intermediate results.\<close>

definition example_t1_t2 :: table where
  "example_t1_t2 = \<lparr>name = ''t1 t2'',
     rows = [(''01'', ''00 01''), (''10'', ''01 10''), (''00'', ''10 11''), (''11'', ''11 00'')]\<rparr>"

section \<open>The generator\<close>

subsection \<open>\<^verbatim>\<open>create_N_table_lookup\<close>\<close>

text \<open>The default \<^verbatim>\<open>namer\<close>, \<^verbatim>\<open>lambda i: "t{}".format(i + 1)\<close>.\<close>

function str_nat :: "nat \<Rightarrow> string" where
  "str_nat n =
     (if n < 10 then [char_of (48 + n)]
      else str_nat (n div 10) @ [char_of (48 + n mod 10)])"
  by pat_completeness auto
termination
  by (relation "measure id") auto

definition default_namer :: "nat \<Rightarrow> string" where
  "default_namer i = ''t'' @ str_nat (i + 1)"

text \<open>
  \<open>ks\<close> are the random numbers of \<^verbatim>\<open>np.random.choice\<close>. A negative \<^verbatim>\<open>n_repeats\<close>
  makes \<^verbatim>\<open>itertools.product\<close> raise ValueError.
\<close>

definition create_N_table_lookup ::
  "int option \<Rightarrow> string list \<Rightarrow> int \<Rightarrow> (nat \<Rightarrow> string) \<Rightarrow> nat list \<Rightarrow> error + table list" where
  "create_N_table_lookup N alphabet n_repeats namer ks =
     (if n_repeats < 0 then Inl ValueError
      else
        let inputs = map concat (product_repeat alphabet (nat n_repeats));
            iter_outputs = permutations inputs
        in and_then
             (case N of
                None \<Rightarrow> Inr iter_outputs
              | Some n \<Rightarrow>
                  and_then (choice ks [0 ..< length iter_outputs] n)
                    (\<lambda>indices. Inr (map (\<lambda>j. iter_outputs ! j) indices)))
             (\<lambda>iter_outputs.
                Inr (map (\<lambda>(i, outputs). \<lparr>name = namer i, rows = zip inputs outputs\<rparr>)
                         (enumerate 0 iter_outputs))))"

subsection \<open>The store of tables\<close>

text \<open>
  The tables are objects: \<^verbatim>\<open>format_input\<close> assigns to the index of the table it is
  given, and the lists of the generator hold references to tables. A reference is a
  position in the store; new tables are added at its end.
\<close>

type_synonym ref = nat

type_synonym store = "table list"

definition alloc_all :: "table list \<Rightarrow> store \<Rightarrow> ref list \<times> store" where
  "alloc_all ts h = ([length h ..< length h + length ts], h @ ts)"

subsection \<open>\<^verbatim>\<open>flatten\<close>, \<^verbatim>\<open>reduce\<close>, \<^verbatim>\<open>assert_equal\<close>\<close>

text \<open>
  \<^verbatim>\<open>flatten\<close> is only called on a list: \<^verbatim>\<open>reduce(operator.add, l)\<close>, which raises
  TypeError on the empty list.
\<close>

definition flatten :: "'a list list \<Rightarrow> error + 'a list" where
  "flatten l = (case l of [] \<Rightarrow> Inl TypeError | x # xs \<Rightarrow> Inr (foldl (@) x xs))"

text \<open>\<^verbatim>\<open>reduce(lambda x, y: compose_table_lookups(x, y, is_intermediate=...), fs)\<close>\<close>

fun reduce_from :: "bool \<Rightarrow> table \<Rightarrow> table list \<Rightarrow> error + table" where
  "reduce_from is_intermediate x [] = Inr x"
| "reduce_from is_intermediate x (y # ys) =
     and_then (compose_table_lookups x y is_intermediate)
       (\<lambda>z. reduce_from is_intermediate z ys)"

definition reduce :: "bool \<Rightarrow> table list \<Rightarrow> error + table" where
  "reduce is_intermediate fs =
     (case fs of [] \<Rightarrow> Inl TypeError | x # ys \<Rightarrow> reduce_from is_intermediate x ys)"

definition assert_equal :: "int \<Rightarrow> int \<Rightarrow> error + unit" where
  "assert_equal a b = (if a = b then Inr () else Inl (AssertionError a b))"

subsection \<open>\<^verbatim>\<open>_split_seen_unseen_new\<close>\<close>

text \<open>
  The truth value of \<^verbatim>\<open>set(composed_table.name.split()).intersection(tables)\<close>. The
  sets of names are kept as lists without repetitions.
\<close>

definition table_is_composed_of :: "table \<Rightarrow> string list \<Rightarrow> bool" where
  "table_is_composed_of composed_table tables =
     (set (py_split (name composed_table)) \<inter> set tables \<noteq> {})"

definition split_seen_unseen_new ::
  "store \<Rightarrow> ref list \<Rightarrow> string list \<Rightarrow> string list \<Rightarrow> ref list \<times> ref list \<times> ref list" where
  "split_seen_unseen_new h dfs name_train name_test =
     (let seen = filter (\<lambda>t. \<not> table_is_composed_of (h ! t) name_test) dfs;
          new = filter (\<lambda>t. \<not> table_is_composed_of (h ! t) name_train) dfs;
          unseen = filter (\<lambda>t. table_is_composed_of (h ! t) name_test \<and>
                                table_is_composed_of (h ! t) name_train) dfs
      in (seen, unseen, new))"

subsection \<open>\<^verbatim>\<open>_merge_format_inputs\<close>\<close>

text \<open>
  The result of \<^verbatim>\<open>pd.concat\<close> is a Series of its own; its name is the common name
  of the parts, and none when they differ. \<^verbatim>\<open>pd.concat\<close> of no object raises
  ValueError.
\<close>

record series =
  sname :: "string option"
  srows :: "(string \<times> string) list"

definition to_series :: "table \<Rightarrow> series" where
  "to_series t = \<lparr>sname = Some (name t), srows = rows t\<rparr>"

definition pd_concat :: "series list \<Rightarrow> error + series" where
  "pd_concat objs =
     (case objs of
        [] \<Rightarrow> Inl ValueError
      | x # xs \<Rightarrow>
          Inr \<lparr>sname = (if list_all (\<lambda>y. sname y = sname x) xs then sname x else None),
               srows = concat (map srows objs)\<rparr>)"

definition format_input_at :: "bool \<Rightarrow> string option \<Rightarrow> store \<Rightarrow> ref \<Rightarrow> store" where
  "format_input_at is_reverse eos h df = h[df := format_input (h ! df) is_reverse eos]"

text \<open>
  The comprehension over \<^verbatim>\<open>list_dfs\<close>: every table of \<open>dfs\<close> is formatted in place,
  then the tables are concatenated as they are stored at that moment.
\<close>

fun merge_format_list ::
  "bool \<Rightarrow> string option \<Rightarrow> ref list list \<Rightarrow> store \<Rightarrow> error + (series list \<times> store)" where
  "merge_format_list is_reverse eos [] h = Inr ([], h)"
| "merge_format_list is_reverse eos (dfs # list_dfs) h =
     (let h1 = foldl (format_input_at is_reverse eos) h dfs
      in and_then (pd_concat (map (\<lambda>df. to_series (h1 ! df)) dfs))
           (\<lambda>s. and_then (merge_format_list is_reverse eos list_dfs h1)
                   (\<lambda>(ss, h2). Inr (s # ss, h2))))"

text \<open>
  \<open>sample_ks n\<close> are the random numbers of \<^verbatim>\<open>df.sample(frac=1, random_state=seed)\<close> on
  a Series of \<open>n\<close> rows.
\<close>

definition merge_format_inputs ::
  "ref list list \<Rightarrow> bool \<Rightarrow> (nat \<Rightarrow> nat list) \<Rightarrow> bool \<Rightarrow> string option \<Rightarrow> store \<Rightarrow>
     error + (series list \<times> store)" where
  "merge_format_inputs list_dfs is_shuffle sample_ks is_reverse eos h =
     and_then (merge_format_list is_reverse eos list_dfs h)
       (\<lambda>(list_df, h').
          Inr (if is_shuffle
               then map (\<lambda>df. df\<lparr>srows := shuffle (sample_ks (length (srows df))) (srows df)\<rparr>) list_df
               else list_df, h'))"

subsection \<open>\<^verbatim>\<open>_check_sizes\<close>\<close>

definition size_permute_compose :: "int \<Rightarrow> int \<Rightarrow> int \<Rightarrow> int" where
  "size_permute_compose n_inputs max_length n_tables =
     sum_list (map (\<lambda>i. n_tables ^ i * n_inputs) (py_range 2 (max_length + 1)))"

definition check_sizes ::
  "series list \<Rightarrow> int \<Rightarrow> int \<Rightarrow> int \<Rightarrow> int \<Rightarrow> int \<Rightarrow> error + unit" where
  "check_sizes dfs max_length n_unary_tables n_heldout_tables n_heldout_compositions
       n_heldout_inputs =
     (if length dfs \<noteq> 6 then Inl ValueError
      else
        let unary_functions = dfs ! 0; multiary_train = dfs ! 1; heldout_inputs = dfs ! 2;
            heldout_compositions = dfs ! 3; heldout_tables = dfs ! 4;
            new_compositions = dfs ! 5
        in if srows unary_functions = [] then Inl IndexError
           else
             let n_repeats = length (snd (hd (srows unary_functions)));
                 alphabet = card (set (concat (map snd (srows unary_functions))));
                 n_inputs = int alphabet ^ n_repeats;
                 n_train_tables = n_unary_tables - n_heldout_tables;
                 n_train_compositions =
                   sum_list (map (\<lambda>i. n_train_tables ^ i) (py_range 2 (max_length + 1)))
                   - n_heldout_compositions
             in and_then (assert_equal (int (length (srows unary_functions)))
                            (n_unary_tables * n_inputs)) (\<lambda>_.
                and_then (assert_equal (int (length (srows multiary_train)))
                            (n_train_compositions * (n_inputs - n_heldout_inputs))) (\<lambda>_.
                and_then (assert_equal (int (length (srows heldout_inputs)))
                            (n_train_compositions * n_heldout_inputs)) (\<lambda>_.
                and_then (assert_equal (int (length (srows heldout_compositions)))
                            (n_heldout_compositions * n_inputs)) (\<lambda>_.
                and_then (assert_equal (int (length (srows heldout_tables)))
                            (size_permute_compose n_inputs max_length
                               (n_train_tables + n_heldout_tables)
                             - size_permute_compose n_inputs max_length n_train_tables
                             - size_permute_compose n_inputs max_length n_heldout_tables)) (\<lambda>_.
                assert_equal (int (length (srows new_compositions)))
                  (size_permute_compose n_inputs max_length n_heldout_tables)))))))"

subsection \<open>\<^verbatim>\<open>_uniform_split\<close>\<close>

text \<open>
  The frame \<open>df\<close> is a list of labelled columns; the label of the column of an unnamed
  Series is \<open>0\<close>, here \<open>None\<close>. \<^verbatim>\<open>df[label] = values\<close> replaces the column with that
  label, or adds a new last column. \<^verbatim>\<open>train_test_split\<close> is a function of
  scikit-learn and a parameter here; the second call is made when the first one raises
  ValueError.
\<close>

datatype cell = Str_cell string | Bool_cell bool | Int_cell int

type_synonym frame = "(string option \<times> cell list) list"

definition assign_column :: "frame \<Rightarrow> string option \<Rightarrow> cell list \<Rightarrow> frame" where
  "assign_column df label values =
     (if label \<in> fst ` set df
      then map (\<lambda>(l, c). if l = label then (l, values) else (l, c)) df
      else df @ [(label, values)])"

definition uniform_split ::
  "(series \<Rightarrow> 'v \<Rightarrow> int \<Rightarrow> frame option \<Rightarrow> error + series \<times> series) \<Rightarrow>
     series \<Rightarrow> string list \<Rightarrow> 'v \<Rightarrow> int \<Rightarrow> bool \<Rightarrow> error + series \<times> series" where
  "uniform_split train_test_split to_split table_names validation_size seed is_stratify =
     (let df0 = [(sname to_split, map (\<lambda>(i, v). Str_cell v) (srows to_split))];
          df1 = foldl (\<lambda>df name.
                   assign_column df (Some name)
                     (map (\<lambda>(i, v). Bool_cell (name \<in> set (py_split i))) (srows to_split)))
                 df0 table_names;
          df2 = assign_column df1 (Some ''length'')
                  (map (\<lambda>(i, v). Int_cell (int (length (py_split i)))) (srows to_split));
          stratify = (if is_stratify then Some (tl df2) else None)
      in case train_test_split to_split validation_size seed stratify of
           Inl ValueError \<Rightarrow> train_test_split to_split validation_size seed None
         | Inl e \<Rightarrow> Inl e
         | Inr r \<Rightarrow> Inr r)"

subsection \<open>\<^verbatim>\<open>table_lookup_dataset\<close>\<close>

text \<open>
  The arguments of \<^verbatim>\<open>table_lookup_dataset\<close>, with the keyword arguments it hands to
  \<^verbatim>\<open>create_N_table_lookup\<close>. \<^verbatim>\<open>validation_size\<close> is a float that is only passed on
  to \<^verbatim>\<open>train_test_split\<close>; its type is left open.
\<close>

record 'v arguments =
  validation_size :: 'v
  max_composition_train :: int
  n_unary_tables :: int
  n_heldout_tables :: int
  n_heldout_compositions :: int
  n_heldout_inputs :: int
  add_composition_test :: int
  is_intermediate :: bool
  is_shuffle :: bool
  is_reverse :: bool
  is_stratify :: bool
  eos :: "string option"
  max_longer :: int
  seed :: int
  alphabet :: "string list"
  n_repeats :: int
  namer :: "nat \<Rightarrow> string"

text \<open>
  What the run takes from its libraries: the random numbers of every draw, and
  \<^verbatim>\<open>train_test_split\<close>. A run is a function of its arguments and of these.
\<close>

record 'v library =
  rng_tables :: "nat list"
  rng_shuffle :: "nat list"
  rng_inputs :: "nat \<Rightarrow> nat list"
  rng_longer :: "nat \<Rightarrow> nat list"
  rng_sample :: "int \<Rightarrow> nat \<Rightarrow> nat list"
  train_test_split :: "series \<Rightarrow> 'v \<Rightarrow> int \<Rightarrow> frame option \<Rightarrow> error + series \<times> series"

text \<open>
  Lines 137 to 146: the unary tables, the two sets of names, all compositions of 2 to
  \<^verbatim>\<open>max_composition_train\<close> tables and their three groups.
\<close>

record composed =
  store_of :: store
  unary_functions :: "ref list"
  names_unary_train :: "string list"
  names_unary_test :: "string list"
  multiary_functions :: "ref list"
  seen :: "ref list"
  unseen :: "ref list"
  new :: "ref list"

definition compose_all :: "'v arguments \<Rightarrow> 'v library \<Rightarrow> error + composed" where
  "compose_all args lib =
     and_then (create_N_table_lookup (Some (n_unary_tables args)) (alphabet args)
                 (n_repeats args) (namer args) (rng_tables lib))
       (\<lambda>tables.
          let (unary, h0) = alloc_all tables [];
              train_names = remdups (map (\<lambda>t. name (h0 ! t))
                                       (slice_to unary (- n_heldout_tables args)));
              test_names = remdups (map (\<lambda>t. name (h0 ! t))
                                      (slice_from unary (- n_heldout_tables args)))
          in and_then
               (map_result
                  (\<lambda>repeat. map_result (reduce (is_intermediate args))
                               (product_repeat (map (\<lambda>t. h0 ! t) unary) repeat))
                  (py_range 2 (max_composition_train args + 1)))
               (\<lambda>composed_tables.
                  and_then (flatten composed_tables)
                    (\<lambda>multiary_tables.
                       let (multiary, h1) = alloc_all multiary_tables h0;
                           (multiary_train, heldout_tables, new_compositions) =
                              split_seen_unseen_new h1 multiary train_names test_names
                       in Inr \<lparr>store_of = h1, unary_functions = unary,
                               names_unary_train = train_names, names_unary_test = test_names,
                               multiary_functions = multiary, seen = multiary_train,
                               unseen = heldout_tables, new = new_compositions\<rparr>)))"

text \<open>
  Lines 147 to 157. \<^verbatim>\<open>table[held_inputs]\<close> selects the rows with the labels of
  \<^verbatim>\<open>held_inputs\<close>, in their order, and \<^verbatim>\<open>table.drop(held_inputs)\<close> removes the rows with
  these labels; both give a new table. The labels are drawn from the index of the
  table, so neither raises KeyError.
\<close>

definition select_rows :: "table \<Rightarrow> string list \<Rightarrow> table" where
  "select_rows table held_inputs =
     table\<lparr>rows := concat (map (\<lambda>l. filter (\<lambda>(i, v). i = l) (rows table)) held_inputs)\<rparr>"

definition drop_rows :: "table \<Rightarrow> string list \<Rightarrow> table" where
  "drop_rows table held_inputs =
     table\<lparr>rows := filter (\<lambda>(i, v). i \<notin> set held_inputs) (rows table)\<rparr>"

record heldout =
  store_of_heldout :: store
  multiary_train :: "ref list"
  heldout_inputs :: "ref list"
  heldout_compositions :: "ref list"

definition heldout_split ::
  "store \<Rightarrow> ref list \<Rightarrow> int \<Rightarrow> int \<Rightarrow> nat list \<Rightarrow> (nat \<Rightarrow> nat list) \<Rightarrow> error + heldout" where
  "heldout_split h pool n_compositions n_inputs ks_shuffle ks_inputs =
     (let shuffled = shuffle ks_shuffle pool;
          held_compositions = slice_from shuffled (- n_compositions);
          kept = slice_to shuffled (- n_compositions)
      in and_then
           (map_result
              (\<lambda>(k, table). choice (ks_inputs k) (map fst (rows (h ! table))) n_inputs)
              (enumerate 0 kept))
           (\<lambda>drop_inputs.
              let (held_inputs, h1) =
                    alloc_all (map (\<lambda>(held, table). select_rows (h ! table) held)
                                   (zip drop_inputs kept)) h;
                  (train, h2) =
                    alloc_all (map (\<lambda>(held, table). drop_rows (h ! table) held)
                                   (zip drop_inputs kept)) h1
              in Inr \<lparr>store_of_heldout = h2, multiary_train = train,
                      heldout_inputs = held_inputs,
                      heldout_compositions = held_compositions\<rparr>))"

text \<open>
  Lines 160 to 176, the loop over \<^verbatim>\<open>range(add_composition_test)\<close>: \<open>n\<close> rounds are
  left, \<open>k\<close> rounds are done. \<^verbatim>\<open>compose_table_lookups\<close> is called with its default
  \<^verbatim>\<open>is_intermediate=True\<close>.
\<close>

record longer_lists =
  store_of_longer :: store
  longer_seens :: "ref list list"
  longer_incrementals :: "ref list list"
  longer_news :: "ref list list"

fun longer_loop ::
  "nat \<Rightarrow> nat \<Rightarrow> (nat \<Rightarrow> nat list) \<Rightarrow> int \<Rightarrow> ref list \<Rightarrow> string list \<Rightarrow> string list \<Rightarrow>
     ref list \<Rightarrow> longer_lists \<Rightarrow> error + longer_lists" where
  "longer_loop 0 k ks bound unary train_names test_names longer acc = Inr acc"
| "longer_loop (Suc n) k ks bound unary train_names test_names longer acc =
     and_then (if bound < int (length longer) then choice (ks k) longer bound else Inr longer)
       (\<lambda>longer.
          let h = store_of_longer acc;
              (longer_seen, longer_incremental, longer_new) =
                 split_seen_unseen_new h longer train_names test_names
          in and_then
               (map_result (\<lambda>(x, y). compose_table_lookups (h ! x) (h ! y) True)
                  (product_pairs unary longer))
               (\<lambda>tables.
                  let (longer', h') = alloc_all tables h
                  in longer_loop n (Suc k) ks bound unary train_names test_names longer'
                       \<lparr>store_of_longer = h',
                        longer_seens = longer_seens acc @ [longer_seen],
                        longer_incrementals = longer_incrementals acc @ [longer_incremental],
                        longer_news = longer_news acc @ [longer_new]\<rparr>))"

definition longer_compositions ::
  "'v arguments \<Rightarrow> 'v library \<Rightarrow> composed \<Rightarrow> store \<Rightarrow> error + longer_lists" where
  "longer_compositions args lib c h =
     (let longest_multiary_functions =
            filter (\<lambda>t. int (length (py_split (name (h ! t)))) = max_composition_train args)
                   (multiary_functions c)
      in and_then
           (map_result (\<lambda>(x, y). compose_table_lookups (h ! x) (h ! y) True)
              (product_pairs (unary_functions c) longest_multiary_functions))
           (\<lambda>tables.
              let (longer, h') = alloc_all tables h
              in longer_loop (nat (add_composition_test args)) 0 (rng_longer lib)
                   (max_longer args) (unary_functions c) (names_unary_train c)
                   (names_unary_test c) longer
                   \<lparr>store_of_longer = h', longer_seens = [], longer_incrementals = [],
                    longer_news = []\<rparr>))"

text \<open>
  Lines 134 to 184: the state of the run when \<^verbatim>\<open>_check_sizes\<close> is called. The four
  calls of \<^verbatim>\<open>_merge_format_inputs\<close> format the tables in place, one list after the
  other.
\<close>

record formatted =
  store_of_formatted :: store
  composed_of :: composed
  heldout_of :: heldout
  f_longer_seens :: "series list"
  f_longer_incrementals :: "series list"
  f_longer_news :: "series list"
  building_blocks :: "series list"

definition format_all :: "'v arguments \<Rightarrow> 'v library \<Rightarrow> error + formatted" where
  "format_all args lib =
     and_then (compose_all args lib) (\<lambda>c.
     and_then (heldout_split (store_of c) (seen c) (n_heldout_compositions args)
                 (n_heldout_inputs args) (rng_shuffle lib) (rng_inputs lib)) (\<lambda>ho.
     and_then (longer_compositions args lib c (store_of_heldout ho)) (\<lambda>lg.
     and_then (merge_format_inputs (longer_seens lg) (is_shuffle args)
                 (rng_sample lib (seed args)) (is_reverse args) (eos args)
                 (store_of_longer lg)) (\<lambda>(ls, h1).
     and_then (merge_format_inputs (longer_incrementals lg) (is_shuffle args)
                 (rng_sample lib (seed args)) (is_reverse args) (eos args) h1) (\<lambda>(li, h2).
     and_then (merge_format_inputs (longer_news lg) (is_shuffle args)
                 (rng_sample lib (seed args)) (is_reverse args) (eos args) h2) (\<lambda>(ln, h3).
     and_then (merge_format_inputs
                 [unary_functions c, multiary_train ho, heldout_inputs ho,
                  heldout_compositions ho, unseen c, new c]
                 (is_shuffle args) (rng_sample lib (seed args)) (is_reverse args)
                 (eos args) h3) (\<lambda>(blocks, h4).
     Inr \<lparr>store_of_formatted = h4, composed_of = c, heldout_of = ho,
          f_longer_seens = ls, f_longer_incrementals = li, f_longer_news = ln,
          building_blocks = blocks\<rparr>)))))))"

text \<open>
  The whole function. The result is the tuple it returns, together with the store of
  tables at the end. Line 189 calls \<^verbatim>\<open>_uniform_split\<close> without \<^verbatim>\<open>is_stratify\<close>, so
  with the default \<open>True\<close> of that parameter.
\<close>

record dataset =
  train_split :: series
  validation_split :: series
  heldout_inputs_split :: series
  heldout_compositions_split :: series
  heldout_tables_split :: series
  new_compositions_split :: series
  longer_seens_split :: "series list"
  longer_incrementals_split :: "series list"
  longer_news_split :: "series list"
  final_store :: store

definition table_lookup_dataset :: "'v arguments \<Rightarrow> 'v library \<Rightarrow> error + dataset" where
  "table_lookup_dataset args lib =
     and_then (format_all args lib) (\<lambda>f.
     and_then (check_sizes (building_blocks f) (max_composition_train args)
                 (n_unary_tables args) (n_heldout_tables args)
                 (n_heldout_compositions args) (n_heldout_inputs args)) (\<lambda>_.
     and_then (uniform_split (train_test_split lib) (building_blocks f ! 1)
                 (names_unary_train (composed_of f)) (validation_size args) (seed args)
                 True) (\<lambda>(train_part, validation_part).
     and_then (pd_concat [building_blocks f ! 0, train_part]) (\<lambda>train_all.
     Inr \<lparr>train_split = train_all,
          validation_split = validation_part,
          heldout_inputs_split = building_blocks f ! 2,
          heldout_compositions_split = building_blocks f ! 3,
          heldout_tables_split = building_blocks f ! 4,
          new_compositions_split = building_blocks f ! 5,
          longer_seens_split = f_longer_seens f,
          longer_incrementals_split = f_longer_incrementals f,
          longer_news_split = f_longer_news f,
          final_store = store_of_formatted f\<rparr>))))"

section \<open>Example run\<close>


text \<open>
  A run with three unary tables over the inputs \<open>0\<close>, \<open>1\<close>, \<open>2\<close>, one of them held out,
  one held-out composition and one held-out input per table. The random numbers are
  fixed, and \<^verbatim>\<open>train_test_split\<close> puts the last row into the validation set.
\<close>

definition example_args :: "unit arguments" where
  "example_args =
     \<lparr>validation_size = (), max_composition_train = 2, n_unary_tables = 3,
      n_heldout_tables = 1, n_heldout_compositions = 1, n_heldout_inputs = 1,
      add_composition_test = 1, is_intermediate = True, is_shuffle = True,
      is_reverse = True, is_stratify = True, eos = Some ''.'', max_longer = 100,
      seed = 123, alphabet = [''0'', ''1'', ''2''], n_repeats = 1,
      namer = default_namer\<rparr>"

definition example_library :: "unit library" where
  "example_library =
     \<lparr>rng_tables = [4, 1, 2], rng_shuffle = [2, 0, 1], rng_inputs = (\<lambda>k. [k]),
      rng_longer = (\<lambda>k. [k]), rng_sample = (\<lambda>s n. [n, 2, 1]),
      train_test_split = (\<lambda>s v seed stratify.
        Inr (s\<lparr>srows := butlast (srows s)\<rparr>, s\<lparr>srows := [last (srows s)]\<rparr>))\<rparr>"

text \<open>Whether a computation returns.\<close>

definition returns :: "error + 'a \<Rightarrow> bool" where
  "returns r = (case r of Inl e \<Rightarrow> False | Inr x \<Rightarrow> True)"

section \<open>Entries\<close>

text \<open>
  An entry is a row of a table together with the name of the table: the composition,
  the input and the output. \<open>entries h ts\<close> are the entries of the tables \<open>ts\<close> of the
  store \<open>h\<close>.
\<close>

definition table_entries :: "table \<Rightarrow> (string \<times> string \<times> string) list" where
  "table_entries t = map (\<lambda>(i, v). (name t, i, v)) (rows t)"

definition entries :: "store \<Rightarrow> ref list \<Rightarrow> (string \<times> string \<times> string) list" where
  "entries h ts = concat (map (\<lambda>t. table_entries (h ! t)) ts)"

section \<open>Properties\<close>

subsection \<open>Splitting and joining strings\<close>

lemma tokens_append_space:
  "is_space c \<Longrightarrow> tokens cur (a @ c # b) = tokens cur a @ tokens [] b"
  by (induction a arbitrary: cur) auto

lemma is_space_blank: "is_space CHR '' ''"
  by (simp add: is_space_def)

lemma py_split_append_blank: "py_split (a @ CHR '' '' # b) = py_split a @ py_split b"
  using tokens_append_space [OF is_space_blank, of "[]" a b] by (simp add: py_split_def)

lemma last_token_append_blank:
  "py_split l \<noteq> [] \<Longrightarrow> last_token (r @ CHR '' '' # l) = last_token l"
  by (simp add: last_token_def py_split_append_blank)

lemma last_token_single: "py_split l = [l] \<Longrightarrow> last_token (r @ CHR '' '' # l) = Some l"
  using last_token_append_blank [of l r] by (simp add: last_token_def)

subsection \<open>Composition\<close>

lemma compose_rows_False:
  "compose_table_lookups A B False = Inr F \<Longrightarrow>
     rows F = map (\<lambda>(i, lv, rv). (i, lv)) (merge_rows (rows A) (rows B))"
  by (auto simp: compose_table_lookups_def Let_def split: if_splits)

lemma compose_rows_True:
  "compose_table_lookups A B True = Inr T \<Longrightarrow>
     rows T = map (\<lambda>(i, lv, rv). (i, rv @ '' '' @ lv)) (merge_rows (rows A) (rows B))"
  by (auto simp: compose_table_lookups_def Let_def split: if_splits)

lemma merge_rows_left_value:
  "(i, lv, rv) \<in> set (merge_rows L R) \<Longrightarrow> lv \<in> snd ` set L"
  by (force simp: merge_rows_def)

lemma compose_True_of_False:
  "compose_table_lookups A B False = Inr F \<Longrightarrow>
     \<exists>T. compose_table_lookups A B True = Inr T \<and> name T = name F"
  by (auto simp: compose_table_lookups_def Let_def split: if_splits)

lemma rows4:
  assumes "map fst rs = [a, b, c, d]"
  shows "\<exists>va vb vc vd. rs = [(a, va), (b, vb), (c, vc), (d, vd)]"
proof -
  from assms have "length (map fst rs) = 4" by simp
  then have "length rs = 4" by simp
  then obtain p q r s where "rs = [p, q, r, s]"
    by (auto simp: length_Suc_conv numeral_eq_Suc)
  with assms show ?thesis by (cases p, cases q, cases r, cases s) auto
qed

lemma filter_merge_rows:
  "filter (\<lambda>r. P (fst r)) (merge_rows L R) = merge_rows L (filter (\<lambda>r. P (fst r)) R)"
  by (simp add: merge_rows_def filter_concat filter_map comp_def case_prod_unfold conj_commute)

lemma merge_rows_index: "(i, lv, rv) \<in> set (merge_rows L R) \<Longrightarrow> i \<in> fst ` set R"
  by (force simp: merge_rows_def)

lemma format_input_rows:
  "rows (format_input t True (Some ''.'')) =
     map (\<lambda>(i, v). (py_join (rev (py_split (name t @ '' '' @ i))) @ '' .'', v)) (rows t)"
  by (simp add: format_input_def Let_def case_prod_unfold comp_def)

lemma last_token_10: "last_token ''10'' = Some ''10''"
  by code_simp

lemma fmt_values:
  "py_join (rev (py_split ''t1 t2 00'')) = ''00 t2 t1''"
  "py_join (rev (py_split ''t1 t2 01'')) = ''01 t2 t1''"
  "py_join (rev (py_split ''t1 t2 10'')) = ''10 t2 t1''"
  "py_join (rev (py_split ''t1 t2 11'')) = ''11 t2 t1''"
  by code_simp+

subsection \<open>The three groups\<close>





subsection \<open>Exceptions and slices\<close>

lemma and_then_Inl [simp]: "and_then (Inl e) f = Inl e"
  by (simp add: and_then_def)

lemma and_then_Inr [simp]: "and_then (Inr x) f = f x"
  by (simp add: and_then_def)

lemma and_then_eq_Inr:
  "(and_then m f = Inr y) = (\<exists>x. m = Inr x \<and> f x = Inr y)"
  by (cases m) simp_all

lemma returns_Inr [simp]: "returns (Inr x)" and returns_Inl [simp]: "\<not> returns (Inl e)"
  by (simp_all add: returns_def)

lemma returns_iff: "returns r = (\<exists>x. r = Inr x)"
  by (cases r) simp_all

lemma slice_bound_0 [simp]: "slice_bound len 0 = 0"
  by (simp add: slice_bound_def)

lemma slice_from_0: "slice_from xs (- 0) = xs"
  by (simp add: slice_from_def)

lemma slice_to_0: "slice_to xs (- 0) = []"
  by (simp add: slice_to_def)

lemma slice_to_from: "slice_to xs k @ slice_from xs k = xs"
  by (simp add: slice_to_def slice_from_def)

lemma heldout_split_zero:
  "heldout_split h pool 0 n ks ks' =
     Inr \<lparr>store_of_heldout = h, multiary_train = [], heldout_inputs = [],
          heldout_compositions = shuffle ks pool\<rparr>"
  by (simp add: heldout_split_def Let_def slice_from_def slice_to_def alloc_all_def enumerate_eq_zip)

subsection \<open>The run as a chain of its steps\<close>

lemma merge_format_list_empty:
  "[] \<in> set list_dfs \<Longrightarrow> \<exists>e. merge_format_list r e0 list_dfs h = Inl e"
proof (induction list_dfs arbitrary: h)
  case Nil
  then show ?case by simp
next
  case (Cons dfs list_dfs)
  show ?case
  proof (cases "dfs = []")
    case True
    then show ?thesis by (simp add: pd_concat_def)
  next
    case False
    with Cons.prems have "[] \<in> set list_dfs" by simp
    from Cons.IH [OF this]
    obtain e where "merge_format_list r e0 list_dfs (foldl (format_input_at r e0) h dfs) = Inl e"
      by blast
    then show ?thesis
      by (cases "pd_concat (map (\<lambda>df. to_series (foldl (format_input_at r e0) h dfs ! df)) dfs)")
         (simp_all add: Let_def)
  qed
qed

lemma merge_format_inputs_empty:
  "[] \<in> set list_dfs \<Longrightarrow> \<exists>e. merge_format_inputs list_dfs s ks r e0 h = Inl e"
  using merge_format_list_empty [of list_dfs r e0 h]
  by (auto simp: merge_format_inputs_def)

lemma format_all_Inr:
  assumes "format_all args lib = Inr f"
  shows "\<exists>lg ls h1 li h2 ln h3.
     compose_all args lib = Inr (composed_of f) \<and>
     heldout_split (store_of (composed_of f)) (seen (composed_of f)) (n_heldout_compositions args)
       (n_heldout_inputs args) (rng_shuffle lib) (rng_inputs lib) = Inr (heldout_of f) \<and>
     longer_compositions args lib (composed_of f) (store_of_heldout (heldout_of f)) = Inr lg \<and>
     merge_format_inputs (longer_seens lg) (is_shuffle args) (rng_sample lib (seed args))
       (is_reverse args) (eos args) (store_of_longer lg) = Inr (ls, h1) \<and>
     merge_format_inputs (longer_incrementals lg) (is_shuffle args) (rng_sample lib (seed args))
       (is_reverse args) (eos args) h1 = Inr (li, h2) \<and>
     merge_format_inputs (longer_news lg) (is_shuffle args) (rng_sample lib (seed args))
       (is_reverse args) (eos args) h2 = Inr (ln, h3) \<and>
     merge_format_inputs
       [unary_functions (composed_of f), multiary_train (heldout_of f), heldout_inputs (heldout_of f),
        heldout_compositions (heldout_of f), unseen (composed_of f), new (composed_of f)]
       (is_shuffle args) (rng_sample lib (seed args)) (is_reverse args) (eos args) h3
       = Inr (building_blocks f, store_of_formatted f) \<and>
     f_longer_seens f = ls \<and> f_longer_incrementals f = li \<and> f_longer_news f = ln"
  using assms by (auto simp: format_all_def and_then_eq_Inr)

lemma no_heldout_compositions_raises:
  assumes "n_heldout_compositions args = 0"
  shows "\<not> returns (table_lookup_dataset args lib)"
proof
  assume "returns (table_lookup_dataset args lib)"
  then obtain f where f: "format_all args lib = Inr f"
    by (auto simp: returns_iff table_lookup_dataset_def and_then_eq_Inr)
  from format_all_Inr [OF f] obtain h3 where
    ho: "heldout_split (store_of (composed_of f)) (seen (composed_of f)) (n_heldout_compositions args)
       (n_heldout_inputs args) (rng_shuffle lib) (rng_inputs lib) = Inr (heldout_of f)"
    and bb: "merge_format_inputs
       [unary_functions (composed_of f), multiary_train (heldout_of f), heldout_inputs (heldout_of f),
        heldout_compositions (heldout_of f), unseen (composed_of f), new (composed_of f)]
       (is_shuffle args) (rng_sample lib (seed args)) (is_reverse args) (eos args) h3
       = Inr (building_blocks f, store_of_formatted f)"
    by blast
  from ho assms have "heldout_of f =
      \<lparr>store_of_heldout = store_of (composed_of f), multiary_train = [], heldout_inputs = [],
       heldout_compositions = shuffle (rng_shuffle lib) (seen (composed_of f))\<rparr>"
    by (simp add: heldout_split_zero)
  then have "multiary_train (heldout_of f) = []"
    by simp
  then have "\<exists>e. merge_format_inputs
       [unary_functions (composed_of f), multiary_train (heldout_of f), heldout_inputs (heldout_of f),
        heldout_compositions (heldout_of f), unseen (composed_of f), new (composed_of f)]
       (is_shuffle args) (rng_sample lib (seed args)) (is_reverse args) (eos args) h3 = Inl e"
    by (intro merge_format_inputs_empty) simp
  with bb show False by simp
qed

lemma uniform_split_not_stratified:
  "uniform_split tts to_split table_names v sd False =
     (case tts to_split v sd None of
        Inl ValueError \<Rightarrow> tts to_split v sd None
      | Inl e \<Rightarrow> Inl e
      | Inr r \<Rightarrow> Inr r)"
  by (simp add: uniform_split_def Let_def)

subsection \<open>Compositions of at least two tables\<close>

lemma map_result_Inl:
  "map_result f xs = Inl e \<Longrightarrow> \<exists>x \<in> set xs. f x = Inl e"
  by (induction xs) (auto split: sum.splits)

lemma map_result_Inr_length:
  "map_result f xs = Inr ys \<Longrightarrow> length ys = length xs"
  by (induction xs arbitrary: ys) (auto split: sum.splits)

lemma product_repeat_length:
  "p \<in> set (product_repeat xs n) \<Longrightarrow> length p = n"
  by (induction n arbitrary: p) auto

lemma compose_not_TypeError: "compose_table_lookups a b i \<noteq> Inl TypeError"
  by (simp add: compose_table_lookups_def Let_def)

lemma reduce_from_not_TypeError: "reduce_from i x ys \<noteq> Inl TypeError"
proof (induction ys arbitrary: x)
  case Nil
  show ?case by simp
next
  case (Cons y ys)
  show ?case
    using compose_not_TypeError [of x y i] Cons.IH
    by (cases "compose_table_lookups x y i") auto
qed

lemma reduce_not_TypeError: "fs \<noteq> [] \<Longrightarrow> reduce i fs \<noteq> Inl TypeError"
  by (cases fs) (simp_all add: reduce_def reduce_from_not_TypeError)

lemma choice_not_TypeError: "choice ks a n \<noteq> Inl TypeError"
  by (simp add: choice_def)

lemma create_not_TypeError: "create_N_table_lookup N al r nm ks \<noteq> Inl TypeError"
proof (cases N)
  case None
  then show ?thesis by (simp add: create_N_table_lookup_def Let_def)
next
  case (Some n)
  then show ?thesis
    using choice_not_TypeError [of ks "[0 ..< length (permutations (map concat (product_repeat al (nat r))))]" n]
    by (cases "choice ks [0 ..< length (permutations (map concat (product_repeat al (nat r))))] n")
       (auto simp: create_N_table_lookup_def Let_def)
qed

lemma flatten_Inl: "(flatten l = Inl e) = (l = [] \<and> e = TypeError)"
  by (cases l) (auto simp: flatten_def)

lemma py_range_empty: "b < 3 \<Longrightarrow> py_range 2 b = []"
  by (simp add: py_range_def)

lemma py_range_not_empty: "3 \<le> b \<Longrightarrow> py_range 2 b \<noteq> []"
  by (simp add: py_range_def)

lemma py_range_ge: "i \<in> set (py_range 2 b) \<Longrightarrow> 2 \<le> i"
  by (simp add: py_range_def)

lemma compose_all_short:
  assumes "max_composition_train args < 2"
  shows "compose_all args lib =
           (case create_N_table_lookup (Some (n_unary_tables args)) (alphabet args)
                   (n_repeats args) (namer args) (rng_tables lib) of
              Inl e \<Rightarrow> Inl e
            | Inr tables \<Rightarrow> Inl TypeError)"
  using assms
  by (simp add: compose_all_def py_range_empty flatten_def Let_def split: sum.splits prod.splits)

lemma compose_all_not_TypeError:
  assumes "2 \<le> max_composition_train args"
  shows "compose_all args lib \<noteq> Inl TypeError"
proof
  assume T: "compose_all args lib = Inl TypeError"
  let ?c = "create_N_table_lookup (Some (n_unary_tables args)) (alphabet args)
                   (n_repeats args) (namer args) (rng_tables lib)"
  from T create_not_TypeError [of "Some (n_unary_tables args)" "alphabet args" "n_repeats args" "namer args" "rng_tables lib"]
  obtain tables where c: "?c = Inr tables"
    by (cases ?c) (auto simp: compose_all_def)
  obtain unary h0 where a: "alloc_all tables [] = (unary, h0)" by (cases "alloc_all tables []")
  let ?m = "map_result
              (\<lambda>repeat. map_result (reduce (is_intermediate args))
                           (product_repeat (map (\<lambda>t. h0 ! t) unary) repeat))
              (py_range 2 (max_composition_train args + 1))"
  show False
  proof (cases ?m)
    case (Inl e)
    with T c a have e: "e = TypeError"
      by (simp add: compose_all_def Let_def)
    from map_result_Inl [OF Inl] obtain repeat where
      r: "repeat \<in> set (py_range 2 (max_composition_train args + 1))" and
      m: "map_result (reduce (is_intermediate args))
            (product_repeat (map (\<lambda>t. h0 ! t) unary) repeat) = Inl e" by blast
    from map_result_Inl [OF m] obtain fs where
      fs: "fs \<in> set (product_repeat (map (\<lambda>t. h0 ! t) unary) repeat)" and
      red: "reduce (is_intermediate args) fs = Inl e" by blast
    from product_repeat_length [OF fs] py_range_ge [OF r] have "fs \<noteq> []" by auto
    from reduce_not_TypeError [OF this] red e show False by simp
  next
    case (Inr ll)
    from map_result_Inr_length [OF Inr] py_range_not_empty [of "max_composition_train args + 1"] assms
    have "ll \<noteq> []" by auto
    then obtain x xs where "ll = x # xs" by (cases ll) auto
    with T c a Inr show False
      by (simp add: compose_all_def Let_def flatten_def split: prod.splits)
  qed
qed

lemma compose_all_raises:
  "compose_all args lib = Inl e \<Longrightarrow> table_lookup_dataset args lib = Inl e"
  by (simp add: table_lookup_dataset_def format_all_def)

lemma example_create:
  "create_N_table_lookup (Some (n_unary_tables example_args)) (alphabet example_args)
     (n_repeats example_args) (namer example_args) (rng_tables example_library) =
     Inr [\<lparr>name = ''t1'', rows = [(''0'', ''2''), (''1'', ''0''), (''2'', ''1'')]\<rparr>,
          \<lparr>name = ''t2'', rows = [(''0'', ''0''), (''1'', ''2''), (''2'', ''1'')]\<rparr>,
          \<lparr>name = ''t3'', rows = [(''0'', ''1''), (''1'', ''2''), (''2'', ''0'')]\<rparr>]"
  by code_simp

section \<open>The claims\<close>

subsection \<open>C6\<close>

text \<open>
  C6, as stated: for all tables \<open>A\<close> and \<open>B\<close> the output of
  \<^verbatim>\<open>compose_table_lookups(A, B, is_intermediate=False)\<close> is the last token of the
  output of \<^verbatim>\<open>compose_table_lookups(A, B, is_intermediate=True)\<close>. This fails when
  the outputs of \<open>A\<close> have more than one token: \<open>A\<close> is the composition of \<open>t1\<close> with
  \<open>t2\<close> that keeps the intermediate results, \<open>B\<close> is \<open>t3\<close>. On the input \<open>01\<close> the
  output without intermediates is \<open>00 01\<close>, the last token of the output with
  intermediates is \<open>01\<close>.
\<close>

theorem compose_final_output_counterexample:
  "compose_table_lookups example_t1 example_t2 True = Inr example_t1_t2 \<and>
   compose_table_lookups example_t1_t2 example_t3 False =
     Inr \<lparr>name = ''t1 t2 t3'',
          rows = [(''01'', ''00 01''), (''11'', ''01 10''), (''10'', ''10 11''), (''00'', ''11 00'')]\<rparr> \<and>
   compose_table_lookups example_t1_t2 example_t3 True =
     Inr \<lparr>name = ''t1 t2 t3'',
          rows = [(''01'', ''01 00 01''), (''11'', ''10 01 10''), (''10'', ''00 10 11''),
                  (''00'', ''11 11 00'')]\<rparr> \<and>
   last_token ''01 00 01'' = Some ''01'' \<and> ''01'' \<noteq> ''00 01''"
  by code_simp

text \<open>
  C6, amended: when every output of \<open>A\<close> is a single token (as for a unary table, and
  for a table composed without intermediate results), the two compositions have the
  same name and the same inputs in the same order, and on every row the output
  without intermediates is the last token of the output with intermediates.
\<close>

theorem compose_final_output:
  assumes single: "\<forall>v \<in> snd ` set (rows A). py_split v = [v]"
    and F: "compose_table_lookups A B False = Inr F"
  shows "\<exists>T. compose_table_lookups A B True = Inr T \<and> name T = name F \<and>
           map fst (rows T) = map fst (rows F) \<and>
           map (\<lambda>(i, v). last_token v) (rows T) = map (\<lambda>(i, v). Some v) (rows F)"
proof -
  from compose_True_of_False [OF F]
  obtain T where T: "compose_table_lookups A B True = Inr T" and n: "name T = name F"
    by blast
  let ?M = "merge_rows (rows A) (rows B)"
  have rT: "rows T = map (\<lambda>(i, lv, rv). (i, rv @ '' '' @ lv)) ?M"
    by (rule compose_rows_True [OF T])
  have rF: "rows F = map (\<lambda>(i, lv, rv). (i, lv)) ?M"
    by (rule compose_rows_False [OF F])
  have tok: "last_token (rv @ CHR '' '' # lv) = Some lv" if "(i, lv, rv) \<in> set ?M" for i lv rv
  proof -
    from that have "lv \<in> snd ` set (rows A)" by (rule merge_rows_left_value)
    with single have "py_split lv = [lv]" by blast
    then show ?thesis by (rule last_token_single)
  qed
  have "map (\<lambda>(i, v). last_token v) (rows T) = map (\<lambda>(i, v). Some v) (rows F)"
    unfolding rT rF map_map by (rule map_cong [OF refl]) (auto simp: tok)
  moreover have "map fst (rows T) = map fst (rows F)"
    unfolding rT rF map_map by (rule map_cong [OF refl]) auto
  ultimately show ?thesis using T n by blast
qed

theorem compose_final_output_witness:
  "compose_table_lookups example_t1 example_t2 False =
     Inr \<lparr>name = ''t1 t2'',
          rows = [(''01'', ''01''), (''10'', ''10''), (''00'', ''11''), (''11'', ''00'')]\<rparr> \<and>
   (\<exists>T. compose_table_lookups example_t1 example_t2 True = Inr T \<and> name T = ''t1 t2'' \<and>
        map fst (rows T) = [''01'', ''10'', ''00'', ''11''] \<and>
        map (\<lambda>(i, v). last_token v) (rows T) = [Some ''01'', Some ''10'', Some ''11'', Some ''00''])"
proof -
  have h1: "\<forall>v \<in> snd ` set (rows example_t1). py_split v = [v]"
    by code_simp
  have h2: "compose_table_lookups example_t1 example_t2 False =
     Inr \<lparr>name = ''t1 t2'',
          rows = [(''01'', ''01''), (''10'', ''10''), (''00'', ''11''), (''11'', ''00'')]\<rparr>"
    by code_simp
  from compose_final_output [OF h1 h2] show ?thesis
    using h2 by simp
qed

subsection \<open>C7\<close>

text \<open>
  C7: \<open>t1\<close> and \<open>t2\<close> are tables named \<open>t1\<close> and \<open>t2\<close> over the inputs \<open>00\<close>, \<open>01\<close>,
  \<open>10\<close>, \<open>11\<close>, with \<open>t2(00) = 10\<close> and \<open>t1(10) = 11\<close>. Composing \<open>t1\<close> with \<open>t2\<close> with
  the intermediate results gives a table named \<open>t1 t2\<close> whose only row for the input
  \<open>00\<close> has the output \<open>10 11\<close>; after \<^verbatim>\<open>format_input\<close> with \<^verbatim>\<open>is_reverse=True\<close>
  and \<^verbatim>\<open>eos="."\<close> the only row with the key \<open>00 t2 t1 .\<close> has the value \<open>10 11\<close>.
\<close>

theorem compose_reverse_eos_scenario:
  assumes n1: "name t1 = ''t1''" and n2: "name t2 = ''t2''"
    and i1: "map fst (rows t1) = [''00'', ''01'', ''10'', ''11'']"
    and i2: "map fst (rows t2) = [''00'', ''01'', ''10'', ''11'']"
    and v2: "(''00'', ''10'') \<in> set (rows t2)"
    and v1: "(''10'', ''11'') \<in> set (rows t1)"
  shows "\<exists>c. compose_table_lookups t1 t2 True = Inr c \<and> name c = ''t1 t2'' \<and>
           filter (\<lambda>r. fst r = ''00'') (rows c) = [(''00'', ''10 11'')] \<and>
           filter (\<lambda>r. fst r = ''00 t2 t1 .'') (rows (format_input c True (Some ''.'')))
             = [(''00 t2 t1 .'', ''10 11'')]"
proof -
  from rows4 [OF i1] obtain a b c d
    where L: "rows t1 = [(''00'', a), (''01'', b), (''10'', c), (''11'', d)]" by blast
  from rows4 [OF i2] obtain x y z w
    where R: "rows t2 = [(''00'', x), (''01'', y), (''10'', z), (''11'', w)]" by blast
  from v1 L have c: "c = ''11''" by simp
  from v2 R have x: "x = ''10''" by simp
  define M where "M = merge_rows (rows t1) (rows t2)"
  define ct where "ct = \<lparr>name = ''t1 t2'', rows = map (\<lambda>(i, lv, rv). (i, rv @ '' '' @ lv)) M\<rparr>"
  have C: "compose_table_lookups t1 t2 True = Inr ct"
    by (simp add: compose_table_lookups_def n1 n2 Let_def split_underscore_head_def ct_def M_def)
  have nm: "name ct = ''t1 t2''" by (simp add: ct_def)
  have fM: "filter (\<lambda>r. fst r = ''00'') M = [(''00'', ''11'', ''10'')]"
    unfolding M_def filter_merge_rows [of "\<lambda>i. i = ''00''"]
    by (simp add: L R c x merge_rows_def last_token_10)
  have rc: "rows ct = map (\<lambda>(i, lv, rv). (i, rv @ '' '' @ lv)) M" by (simp add: ct_def)
  have f0: "filter (\<lambda>r. fst r = ''00'') (rows ct) = [(''00'', ''10 11'')]"
  proof -
    have "filter (\<lambda>r. fst r = ''00'') (rows ct) =
            map (\<lambda>(i, lv, rv). (i, rv @ '' '' @ lv)) (filter (\<lambda>r. fst r = ''00'') M)"
      by (simp add: rc filter_map comp_def case_prod_unfold)
    then show ?thesis by (simp add: fM)
  qed
  have idx: "fst r \<in> {''00'', ''01'', ''10'', ''11''}" if "r \<in> set (rows ct)" for r
  proof -
    from that obtain i lv rv where "(i, lv, rv) \<in> set M" and "fst r = i"
      by (auto simp: rc)
    then have "i \<in> fst ` set (rows t2)" unfolding M_def by (auto dest: merge_rows_index)
    with \<open>fst r = i\<close> show ?thesis by (simp add: R)
  qed
  let ?fmt = "\<lambda>i. py_join (rev (py_split (''t1 t2'' @ '' '' @ i))) @ '' .''"
  have fmt: "(?fmt (fst r) = ''00 t2 t1 .'') = (fst r = ''00'')" if "r \<in> set (rows ct)" for r
    using idx [OF that] fmt_values by auto
  have "filter (\<lambda>r. fst r = ''00 t2 t1 .'') (rows (format_input ct True (Some ''.'')))
          = map (\<lambda>(i, v). (?fmt i, v)) (filter (\<lambda>r. ?fmt (fst r) = ''00 t2 t1 .'') (rows ct))"
    by (simp add: format_input_rows nm filter_map comp_def case_prod_unfold)
  also have "filter (\<lambda>r. ?fmt (fst r) = ''00 t2 t1 .'') (rows ct) =
             filter (\<lambda>r. fst r = ''00'') (rows ct)"
    by (rule filter_cong [OF refl]) (rule fmt)
  finally have "filter (\<lambda>r. fst r = ''00 t2 t1 .'') (rows (format_input ct True (Some ''.'')))
          = [(''00 t2 t1 .'', ''10 11'')]"
    by (simp add: f0 fmt_values)
  with C nm f0 show ?thesis by blast
qed

theorem compose_reverse_eos_scenario_witness:
  "\<exists>c. compose_table_lookups example_t1 example_t2 True = Inr c \<and> name c = ''t1 t2'' \<and>
       filter (\<lambda>r. fst r = ''00'') (rows c) = [(''00'', ''10 11'')] \<and>
       filter (\<lambda>r. fst r = ''00 t2 t1 .'') (rows (format_input c True (Some ''.'')))
         = [(''00 t2 t1 .'', ''10 11'')]"
  by (rule compose_reverse_eos_scenario [of example_t1 example_t2])
     (simp_all add: example_t1_def example_t2_def)

subsection \<open>C1\<close>



subsection \<open>C3\<close>

text \<open>
  C3 says that with \<^verbatim>\<open>n_heldout_compositions = 0\<close> and \<^verbatim>\<open>n_heldout_inputs = 0\<close> the
  splits \<open>heldout_compositions\<close> and \<open>heldout_inputs\<close> are empty and the training pool is
  the whole pool of seen compositions. The code slices with
  \<^verbatim>\<open>multiary_train[-n_heldout_compositions:]\<close> and
  \<^verbatim>\<open>multiary_train[:-n_heldout_compositions]\<close>, and \<open>-0\<close> is \<open>0\<close>: the held-out
  compositions are the whole shuffled pool and the training pool is empty, for every
  pool. No such run returns: \<^verbatim>\<open>pd.concat\<close> of the empty training pool raises.
\<close>

theorem no_heldout_compositions_takes_all:
  "heldout_split h pool 0 0 ks ks' =
     Inr \<lparr>store_of_heldout = h, multiary_train = [], heldout_inputs = [],
          heldout_compositions = shuffle ks pool\<rparr> \<and>
   \<not> returns (table_lookup_dataset
                 (args\<lparr>n_heldout_compositions := 0, n_heldout_inputs := 0\<rparr>) lib)"
  by (simp add: heldout_split_zero no_heldout_compositions_raises)

subsection \<open>C9\<close>

text \<open>
  C9 says that \<^verbatim>\<open>is_stratify\<close> decides whether the split into train and validation
  is stratified. \<^verbatim>\<open>_uniform_split\<close> has the parameter (see
  \<open>uniform_split_not_stratified\<close>), but \<^verbatim>\<open>table_lookup_dataset\<close> does not pass its own
  \<^verbatim>\<open>is_stratify\<close> on: a run with \<^verbatim>\<open>is_stratify=False\<close> is the run with
  \<^verbatim>\<open>is_stratify=True\<close>.
\<close>

theorem table_lookup_dataset_ignores_is_stratify:
  "table_lookup_dataset (args\<lparr>is_stratify := False\<rparr>) lib =
   table_lookup_dataset (args\<lparr>is_stratify := True\<rparr>) lib"
  by (simp add: table_lookup_dataset_def format_all_def compose_all_def longer_compositions_def)

subsection \<open>C10\<close>

text \<open>
  C10: with \<^verbatim>\<open>max_composition_train < 2\<close> the run raises. \<^verbatim>\<open>range(2,
  max_composition_train + 1)\<close> is empty, so once the unary tables are made,
  \<^verbatim>\<open>flatten\<close> reduces the empty list and raises TypeError (and when
  \<^verbatim>\<open>create_N_table_lookup\<close> raises, the run raises that error). With
  \<^verbatim>\<open>2 \<le> max_composition_train\<close> the step that builds the compositions never raises
  TypeError.
\<close>

theorem short_composition_raises:
  "(max_composition_train args < 2 \<longrightarrow>
      \<not> returns (table_lookup_dataset args lib) \<and>
      compose_all args lib =
        (case create_N_table_lookup (Some (n_unary_tables args)) (alphabet args)
                (n_repeats args) (namer args) (rng_tables lib) of
           Inl e \<Rightarrow> Inl e
         | Inr tables \<Rightarrow> Inl TypeError)) \<and>
   (2 \<le> max_composition_train args \<longrightarrow> compose_all args lib \<noteq> Inl TypeError)"
proof (intro conjI impI)
  assume lt: "max_composition_train args < 2"
  from compose_all_short [OF lt, of lib]
  obtain e where "compose_all args lib = Inl e"
    by (cases "create_N_table_lookup (Some (n_unary_tables args)) (alphabet args)
                (n_repeats args) (namer args) (rng_tables lib)") auto
  from compose_all_raises [OF this] show "\<not> returns (table_lookup_dataset args lib)" by simp
  show "compose_all args lib =
        (case create_N_table_lookup (Some (n_unary_tables args)) (alphabet args)
                (n_repeats args) (namer args) (rng_tables lib) of
           Inl e \<Rightarrow> Inl e
         | Inr tables \<Rightarrow> Inl TypeError)" by (rule compose_all_short [OF lt])
next
  assume "2 \<le> max_composition_train args"
  then show "compose_all args lib \<noteq> Inl TypeError" by (rule compose_all_not_TypeError)
qed

theorem short_composition_raises_witness:
  "\<not> returns (table_lookup_dataset (example_args\<lparr>max_composition_train := 1\<rparr>) example_library) \<and>
   compose_all (example_args\<lparr>max_composition_train := 1\<rparr>) example_library = Inl TypeError \<and>
   compose_all example_args example_library \<noteq> Inl TypeError"
proof -
  let ?a = "example_args\<lparr>max_composition_train := 1\<rparr>"
  have 1: "max_composition_train ?a < 2" by simp
  have 2: "2 \<le> max_composition_train example_args" by (simp add: example_args_def)
  from short_composition_raises [of ?a example_library] 1
  have "\<not> returns (table_lookup_dataset ?a example_library)"
    and "compose_all ?a example_library = Inl TypeError"
    by (simp_all add: example_create)
  moreover from short_composition_raises [of example_args example_library] 2
  have "compose_all example_args example_library \<noteq> Inl TypeError" by blast
  ultimately show ?thesis by blast
qed

end
